theory Spec2Isabelle
  imports Main
begin

section \<open>JavaScript values\<close>

text \<open>
  The values that attributes, tokens and replies hold. Finite numbers are the integers,
  exact and rendered in decimal, which is JavaScript's number for an integer up to
  \<open>2^53\<close> in size; \<open>NaN\<close> and the two infinities are kept. Fractional numbers, and the
  rounding and the exponent notation of larger numbers, are not part of the model. Strings
  are lists of 8-bit code units. Objects are plain JSON objects.
\<close>

datatype jsnum = JNaN | JPosInf | JNegInf | JInt int

datatype jsval =
    JUndefined
  | JNull
  | JBool bool
  | JNum jsnum
  | JStr string
  | JArr "jsval list"
  | JObj "(string \<times> jsval) list"

type_synonym attrs = "string \<rightharpoonup> jsval"

text \<open>\<open>obj[key]\<close>: a missing property reads as \<open>undefined\<close>.\<close>

definition getp :: "attrs \<Rightarrow> string \<Rightarrow> jsval" where
  "getp obj key = (case obj key of None \<Rightarrow> JUndefined | Some v \<Rightarrow> v)"

text \<open>A class-level key that is \<open>null\<close> is used as the property name \<open>"null"\<close>, and
  concatenated to a string as \<open>"null"\<close>.\<close>

definition keyName :: "string option \<Rightarrow> string" where
  "keyName k = (case k of None \<Rightarrow> ''null'' | Some s \<Rightarrow> s)"

subsection \<open>ToString\<close>

definition digitChar :: "nat \<Rightarrow> char" where
  "digitChar n = ''0123456789abcdef'' ! n"

fun natToDec :: "nat \<Rightarrow> string" where
  "natToDec n = (if n < 10 then [digitChar n] else natToDec (n div 10) @ [digitChar (n mod 10)])"

declare natToDec.simps [simp del]

definition numToString :: "jsnum \<Rightarrow> string" where
  "numToString n =
     (case n of
        JNaN \<Rightarrow> ''NaN''
      | JPosInf \<Rightarrow> ''Infinity''
      | JNegInf \<Rightarrow> ''-Infinity''
      | JInt i \<Rightarrow> (if i < 0 then ''-'' @ natToDec (nat (- i)) else natToDec (nat i)))"

fun joinWith :: "string \<Rightarrow> string list \<Rightarrow> string" where
  "joinWith sep [] = []"
| "joinWith sep [x] = x"
| "joinWith sep (x # y # ys) = x @ sep @ joinWith sep (y # ys)"

fun ToString :: "jsval \<Rightarrow> string" where
  "ToString JUndefined = ''undefined''"
| "ToString JNull = ''null''"
| "ToString (JBool b) = (if b then ''true'' else ''false'')"
| "ToString (JNum n) = numToString n"
| "ToString (JStr s) = s"
| "ToString (JArr xs) =
     joinWith '','' (map (\<lambda>x. if x = JUndefined \<or> x = JNull then [] else ToString x) xs)"
| "ToString (JObj kvs) = ''[object Object]''"

subsection \<open>parseInt and isNaN\<close>

definition isWhiteSpace :: "char \<Rightarrow> bool" where
  "isWhiteSpace c = (c \<in> set [CHR 0x09, CHR 0x0A, CHR 0x0B, CHR 0x0C, CHR 0x0D, CHR 0x20, CHR 0xA0])"

definition digitVal :: "char \<Rightarrow> nat option" where
  "digitVal c =
     (let n = (of_char c :: nat) in
      if 48 \<le> n \<and> n \<le> 57 then Some (n - 48)
      else if 97 \<le> n \<and> n \<le> 122 then Some (n - 87)
      else if 65 \<le> n \<and> n \<le> 90 then Some (n - 55)
      else None)"

definition isRadixDigit :: "nat \<Rightarrow> char \<Rightarrow> bool" where
  "isRadixDigit R c = (case digitVal c of None \<Rightarrow> False | Some d \<Rightarrow> d < R)"

definition radixValue :: "nat \<Rightarrow> string \<Rightarrow> nat" where
  "radixValue R Z = foldl (\<lambda>a c. a * R + (case digitVal c of None \<Rightarrow> 0 | Some d \<Rightarrow> d)) 0 Z"

text \<open>\<open>parseInt(string)\<close> with no radix argument (ECMAScript 5, 15.1.2.2): leading white
  space is skipped, a sign is read, a \<open>0x\<close> prefix selects radix 16, and the longest prefix
  of digits is the value; no digit gives \<open>NaN\<close>.\<close>

definition parseIntStr :: "string \<Rightarrow> jsnum" where
  "parseIntStr inputString =
     (let S = dropWhile isWhiteSpace inputString;
          sign = (if S \<noteq> [] \<and> hd S = CHR ''-'' then (- 1 :: int) else 1);
          S1 = (if S \<noteq> [] \<and> (hd S = CHR ''+'' \<or> hd S = CHR ''-'') then tl S else S);
          hex = (take 2 S1 = ''0x'' \<or> take 2 S1 = ''0X'');
          R = (if hex then 16 else 10);
          S2 = (if hex then drop 2 S1 else S1);
          Z = takeWhile (isRadixDigit R) S2
      in if Z = [] then JNaN else JInt (sign * int (radixValue R Z)))"

definition parseInt :: "jsval \<Rightarrow> jsnum" where
  "parseInt v = parseIntStr (ToString v)"

definition isNaN :: "jsnum \<Rightarrow> bool" where
  "isNaN n = (n = JNaN)"

text \<open>\<open>n > 0\<close> on numbers; a comparison with \<open>NaN\<close> is false.\<close>

definition gtZero :: "jsnum \<Rightarrow> bool" where
  "gtZero n = (case n of JNaN \<Rightarrow> False | JPosInf \<Rightarrow> True | JNegInf \<Rightarrow> False | JInt i \<Rightarrow> 0 < i)"

subsection \<open>encodeURIComponent\<close>

definition isUnreserved :: "char \<Rightarrow> bool" where
  "isUnreserved c =
     (let n = (of_char c :: nat) in
      (48 \<le> n \<and> n \<le> 57) \<or> (65 \<le> n \<and> n \<le> 90) \<or> (97 \<le> n \<and> n \<le> 122)
      \<or> c \<in> set ''-_.!~*'' \<or> n = 39 \<or> c \<in> set ''()'')"

definition pctByte :: "nat \<Rightarrow> string" where
  "pctByte n = [CHR ''%'', ''0123456789ABCDEF'' ! (n div 16), ''0123456789ABCDEF'' ! (n mod 16)]"

text \<open>A code unit below 128 is one UTF-8 byte, one from 128 to 255 is two.\<close>

definition encodeUnit :: "char \<Rightarrow> string" where
  "encodeUnit c =
     (let n = (of_char c :: nat) in
      if isUnreserved c then [c]
      else if n < 128 then pctByte n
      else pctByte (192 + n div 64) @ pctByte (128 + n mod 64))"

definition encodeURIComponent :: "string \<Rightarrow> string" where
  "encodeURIComponent s = concat (map encodeUnit s)"

section \<open>Entity: the value conversions\<close>

text \<open>\<open>Entity.convertInteger\<close>.\<close>

definition convertInteger :: "jsval \<Rightarrow> jsval" where
  "convertInteger v =
     (case v of
        JBool b \<Rightarrow> JNum (JInt (if b then 1 else 0))
      | _ \<Rightarrow> (let n = parseInt v in if isNaN n then JNum (JInt 0) else JNum n))"

text \<open>\<open>Entity.convertBoolInput\<close>.\<close>

definition convertBoolInput :: "jsval \<Rightarrow> jsval" where
  "convertBoolInput v =
     (case v of
        JBool b \<Rightarrow> JBool b
      | _ \<Rightarrow> (let n = parseInt v in if isNaN n then JBool False else JBool (gtZero n)))"

text \<open>\<open>Entity.convertBoolOutput\<close>: the three tests in the order of the source.\<close>

definition convertBoolOutput :: "jsval \<Rightarrow> jsval" where
  "convertBoolOutput v =
     (case v of
        JNum n \<Rightarrow> (if gtZero n then JBool True else JNull)
      | JBool b \<Rightarrow> (if b then JBool True else JNull)
      | _ \<Rightarrow> (if v = JStr ''1'' \<or> v = JStr ''true'' then JBool True else JNull))"

section \<open>Entity classes\<close>

text \<open>The class-level (static) properties of an entity class.\<close>

record entity_class =
  idKey :: "string option"
  entityType :: "string option"
  bundleKey :: "string option"
  labelKey :: "string option"
  booleanFields :: "string list"
  integerFields :: "string list"

text \<open>A class made with \<open>extend\<close> inherits the static properties it does not give.\<close>

definition Entity :: entity_class where
  "Entity = \<lparr> idKey = None, entityType = None, bundleKey = None, labelKey = None,
              booleanFields = [], integerFields = [] \<rparr>"

definition File :: entity_class where
  "File = \<lparr> idKey = Some ''fid'', entityType = Some ''file'', bundleKey = Some ''type'',
            labelKey = Some ''filename'', booleanFields = [],
            integerFields = [''filesize'', ''status'', ''timestamp'', ''uid''] \<rparr>"

definition Node :: entity_class where
  "Node = \<lparr> idKey = Some ''nid'', entityType = Some ''node'', bundleKey = Some ''type'',
            labelKey = Some ''title'', booleanFields = [''status'', ''sticky'', ''promote''],
            integerFields = [''changed'', ''cid'', ''comment'', ''comment_count'', ''created'',
              ''last_comment_timestamp'', ''last_comment_uid'', ''revision_timestamp'',
              ''revision_uid'', ''tnid'', ''translate'', ''uid'', ''vid''] \<rparr>"

definition TaxonomyTerm :: entity_class where
  "TaxonomyTerm = Entity \<lparr> idKey := Some ''tid'', entityType := Some ''taxonomy_term'',
            bundleKey := Some ''vocabulary_machine_name'', labelKey := Some ''name'',
            integerFields := [''vid'', ''weight''] \<rparr>"

definition TaxonomyVocabulary :: entity_class where
  "TaxonomyVocabulary = Entity \<lparr> idKey := Some ''vid'',
            entityType := Some ''taxonomy_vocabulary'', labelKey := Some ''name'',
            integerFields := [''hierarchy'', ''weight''] \<rparr>"

definition User :: entity_class where
  "User = Entity \<lparr> idKey := Some ''uid'', entityType := Some ''user'', labelKey := Some ''name'',
            integerFields := [''access'', ''created'', ''login'', ''status''] \<rparr>"

definition entity_classes :: "entity_class list" where
  "entity_classes = [Entity, File, Node, TaxonomyTerm, TaxonomyVocabulary, User]"

subsection \<open>What the Backbone library does\<close>

text \<open>
  Backbone itself is a library the repository builds on. Of \<open>Backbone.Model\<close> the entity
  methods use: \<open>toJSON\<close>, a shallow copy of the attributes; \<open>set\<close>, which writes every
  given attribute over the current ones; \<open>isNew\<close>, true when the attribute named by
  \<open>idAttribute\<close> is missing, \<open>null\<close> or \<open>undefined\<close>. \<open>Entity.initialize\<close> sets
  \<open>idAttribute\<close> to the class's \<open>idKey\<close>.
\<close>

definition Model_toJSON :: "attrs \<Rightarrow> attrs" where
  "Model_toJSON attributes = attributes"

definition Model_set :: "attrs \<Rightarrow> attrs \<Rightarrow> attrs" where
  "Model_set given attributes = attributes ++ given"

definition isNew :: "entity_class \<Rightarrow> attrs \<Rightarrow> bool" where
  "isNew cls attributes =
     (let v = getp attributes (keyName (idKey cls)) in v = JUndefined \<or> v = JNull)"

subsection \<open>Entity methods\<close>

definition Entity_label :: "entity_class \<Rightarrow> attrs \<Rightarrow> jsval" where
  "Entity_label cls attributes = getp attributes (keyName (labelKey cls))"

definition Entity_bundle :: "entity_class \<Rightarrow> attrs \<Rightarrow> jsval" where
  "Entity_bundle cls attributes =
     (case bundleKey cls of None \<Rightarrow> JNull | Some k \<Rightarrow> getp attributes k)"

text \<open>\<open>Entity.url\<close>.\<close>

definition Entity_url :: "entity_class \<Rightarrow> attrs \<Rightarrow> string" where
  "Entity_url cls attributes =
     (let root = ''/'' @ keyName (entityType cls) in
      if isNew cls attributes then root
      else root @ ''/'' @ encodeURIComponent (ToString (getp attributes (keyName (idKey cls)))))"

text \<open>One round of the \<open>_.each\<close> loops of \<open>toJSON\<close> and \<open>cleanInput\<close>: a field whose
  value is not \<open>undefined\<close> is replaced by its conversion.\<close>

definition convertField :: "(jsval \<Rightarrow> jsval) \<Rightarrow> attrs \<Rightarrow> string \<Rightarrow> attrs" where
  "convertField f values key =
     (if getp values key \<noteq> JUndefined then values(key \<mapsto> f (getp values key)) else values)"

text \<open>\<open>Entity.toJSON\<close>.\<close>

definition toJSON :: "entity_class \<Rightarrow> attrs \<Rightarrow> attrs" where
  "toJSON cls this_attributes =
     (let attributes = Model_toJSON this_attributes;
          attributes = foldl (convertField convertInteger) attributes (integerFields cls);
          attributes = foldl (convertField convertBoolOutput) attributes (booleanFields cls)
      in attributes(''rdf_mapping'' := None))"

text \<open>\<open>Entity.cleanInput\<close>.\<close>

definition cleanInput :: "entity_class \<Rightarrow> attrs \<Rightarrow> attrs" where
  "cleanInput cls values0 =
     (let values = foldl (convertField convertInteger) values0 (integerFields cls);
          values = foldl (convertField convertBoolInput) values (booleanFields cls)
      in convertField convertInteger values (keyName (idKey cls)))"

text \<open>\<open>Entity.set\<close>: the first argument is \<open>null\<close> or \<open>undefined\<close>, an object of
  attributes, or the name of one attribute.\<close>

datatype set_key = KeyNull | KeyObject attrs | KeyName string

definition Entity_set :: "entity_class \<Rightarrow> set_key \<Rightarrow> jsval \<Rightarrow> attrs \<Rightarrow> attrs" where
  "Entity_set cls key val attributes =
     (case key of
        KeyNull \<Rightarrow> attributes
      | KeyObject given \<Rightarrow> Model_set (cleanInput cls given) attributes
      | KeyName k \<Rightarrow> Model_set (cleanInput cls (Map.empty(k \<mapsto> val))) attributes)"

subsection \<open>File\<close>

text \<open>The two prototype properties of \<open>File\<close>.\<close>

definition fileContents :: jsval where
  "fileContents = JNum (JInt 0)"

definition imageStyles :: jsval where
  "imageStyles = JNum (JInt 1)"

text \<open>\<open>File.url\<close>.\<close>

definition File_url :: "attrs \<Rightarrow> string" where
  "File_url attributes =
     (let url = Entity_url File attributes in
      if isNew File attributes then url
      else url @ ''?file_contents='' @ ToString (convertInteger fileContents)
               @ ''&image_styles='' @ ToString (convertInteger imageStyles))"

subsection \<open>Entity collections\<close>

text \<open>\<open>Collection.Entity.url\<close>.\<close>

definition Collection_url :: "entity_class \<Rightarrow> string" where
  "Collection_url model = ''/'' @ keyName (entityType model)"

section \<open>Truthiness and comparison with zero\<close>

text \<open>What \<open>!v\<close> and \<open>if (v)\<close> test.\<close>

definition truthy :: "jsval \<Rightarrow> bool" where
  "truthy v =
     (case v of
        JUndefined \<Rightarrow> False
      | JNull \<Rightarrow> False
      | JBool b \<Rightarrow> b
      | JNum n \<Rightarrow> n \<noteq> JNaN \<and> n \<noteq> JInt 0
      | JStr s \<Rightarrow> s \<noteq> []
      | _ \<Rightarrow> True)"

definition isDecDigit :: "char \<Rightarrow> bool" where
  "isDecDigit c = (48 \<le> (of_char c :: nat) \<and> (of_char c :: nat) \<le> 57)"

definition trimWhiteSpace :: "string \<Rightarrow> string" where
  "trimWhiteSpace s = rev (dropWhile isWhiteSpace (rev (dropWhile isWhiteSpace s)))"

text \<open>An unsigned decimal literal (digits, an optional fraction, an optional exponent)
  whose value is zero: it is well formed and every digit of its mantissa is \<open>0\<close>.\<close>

definition decimalIsZero :: "string \<Rightarrow> bool" where
  "decimalIsZero u =
     (let isE = (\<lambda>c. c = CHR ''e'' \<or> c = CHR ''E'');
          mant = takeWhile (\<lambda>c. \<not> isE c) u;
          ex = dropWhile (\<lambda>c. \<not> isE c) u;
          exDigits = (let e1 = tl ex in
                      if e1 \<noteq> [] \<and> (hd e1 = CHR ''+'' \<or> hd e1 = CHR ''-'') then tl e1 else e1);
          exOk = (ex = [] \<or> (exDigits \<noteq> [] \<and> list_all isDecDigit exDigits));
          ip = takeWhile (\<lambda>c. c \<noteq> CHR ''.'') mant;
          rest = dropWhile (\<lambda>c. c \<noteq> CHR ''.'') mant;
          fp = tl rest
      in exOk \<and> (ip \<noteq> [] \<or> fp \<noteq> []) \<and> list_all (\<lambda>c. c = CHR ''0'') (ip @ fp))"

text \<open>The string converts to the number zero (ToNumber on strings): empty after trimming,
  a prefixed literal of zeros, or a signed decimal literal of value zero.\<close>

definition stringIsZero :: "string \<Rightarrow> bool" where
  "stringIsZero s =
     (let t = trimWhiteSpace s;
          prefixed = (take 2 t \<in> set [''0x'', ''0X'', ''0o'', ''0O'', ''0b'', ''0B'']);
          u = (if t \<noteq> [] \<and> (hd t = CHR ''+'' \<or> hd t = CHR ''-'') then tl t else t)
      in t = []
         \<or> (prefixed \<and> drop 2 t \<noteq> [] \<and> list_all (\<lambda>c. c = CHR ''0'') (drop 2 t))
         \<or> decimalIsZero u)"

text \<open>\<open>v != 0\<close>, the loose comparison: \<open>null\<close> and \<open>undefined\<close> differ from every number,
  a boolean and a string are converted to a number, an object to its string first.\<close>

definition looseNeqZero :: "jsval \<Rightarrow> bool" where
  "looseNeqZero v =
     (case v of
        JUndefined \<Rightarrow> True
      | JNull \<Rightarrow> True
      | JBool b \<Rightarrow> b
      | JNum n \<Rightarrow> n \<noteq> JInt 0
      | JStr s \<Rightarrow> \<not> stringIsZero s
      | _ \<Rightarrow> \<not> stringIsZero (ToString v))"

section \<open>The network\<close>

text \<open>The data of a call: \<open>JsonText v\<close> is the string \<open>JSON.stringify(v)\<close>, \<open>Plain v\<close> is the
  value \<open>v\<close> given as it is (a string, or an object that the transport serialises).\<close>

datatype payload = JsonText jsval | Plain jsval

text \<open>
  A request as it leaves the client. \<open>r_url\<close> is the URL the call gives (an empty one
  stands for the address of the page). \<open>r_query\<close> is the data the transport appends to
  the URL as its query string, \<open>r_data\<close> the data sent as the body; \<open>None\<close> when there is
  none. \<open>r_contentType\<close> is the content type the call asks for. \<open>r_headers\<close> are the
  headers set on the request through \<open>beforeSend\<close>, one value for each name.
\<close>

record request =
  r_url :: string
  r_query :: "payload option"
  r_type :: string
  r_contentType :: "string option"
  r_withCredentials :: bool
  r_headers :: "(string \<times> string) list"
  r_data :: "payload option"

text \<open>The JSON object a successful request resolves with, typed as the REST dialect gives
  it: a \<open>token\<close> (\<open>undefined\<close> when the reply has none) and a \<open>user\<close> object. A reply
  without a \<open>user\<close> object is not part of the model.\<close>

record reply =
  data_token :: jsval
  data_user :: attrs

datatype response = Failure | Success reply

text \<open>The server answers a request knowing the requests sent before it.\<close>

type_synonym server = "request list \<Rightarrow> request \<Rightarrow> response"

text \<open>How a call ends: with a promise that is pending, resolved or rejected, or with an
  error raised before any request is sent (\<open>Raised\<close>), in which case no promise is settled.\<close>

datatype 'a promise = Pending | Resolved 'a | Rejected | Raised

text \<open>The state outside the session object: the value kept in \<open>getCsrfToken.token\<close> and
  the requests sent so far. Each call chain runs to its end before the next starts.\<close>

record world =
  getCsrfToken_token :: jsval
  sent :: "request list"

text \<open>\<open>Backbone.$.ajax\<close>: the request is sent, the promise follows the answer.\<close>

definition ajax :: "server \<Rightarrow> request \<Rightarrow> world \<Rightarrow> world \<times> reply promise" where
  "ajax srv req w =
     (w\<lparr>sent := sent w @ [req]\<rparr>,
      case srv (sent w) req of Success d \<Rightarrow> Resolved d | Failure \<Rightarrow> Rejected)"

section \<open>The token store\<close>

definition setCsrfToken :: "jsval \<Rightarrow> world \<Rightarrow> world" where
  "setCsrfToken token w = w\<lparr>getCsrfToken_token := token\<rparr>"

definition resetCsrfToken :: "world \<Rightarrow> world" where
  "resetCsrfToken w = w\<lparr>getCsrfToken_token := JBool False\<rparr>"

definition tokenRequest :: "string \<Rightarrow> request" where
  "tokenRequest appRoot =
     \<lparr> r_url = appRoot @ ''/user/token'', r_query = None, r_type = ''POST'',
       r_contentType = Some ''application/json'', r_withCredentials = True,
       r_headers = [], r_data = None \<rparr>"

text \<open>\<open>getCsrfToken\<close>.\<close>

definition getCsrfToken :: "string \<Rightarrow> server \<Rightarrow> world \<Rightarrow> world \<times> jsval promise" where
  "getCsrfToken appRoot srv w =
     (if \<not> truthy (getCsrfToken_token w) then
        (case ajax srv (tokenRequest appRoot) w of
           (w1, Resolved d) \<Rightarrow> (setCsrfToken (data_token d) w1, Resolved (data_token d))
         | (w1, Rejected) \<Rightarrow> (w1, Rejected)
         | (w1, Pending) \<Rightarrow> (w1, Pending)
         | (w1, Raised) \<Rightarrow> (w1, Raised))
      else (w, Resolved (getCsrfToken_token w)))"

section \<open>The sync layer\<close>

text \<open>The request object handed to \<open>beforeSend\<close> (a jqXHR), as the headers it holds. Names
  of headers and of request methods are ASCII tokens; they are compared and raised letter
  by letter.\<close>

type_synonym xhr = "(string \<times> string) list"

definition toLowerCase :: "string \<Rightarrow> string" where
  "toLowerCase s =
     map (\<lambda>c. case map_of (zip ''ABCDEFGHIJKLMNOPQRSTUVWXYZ'' ''abcdefghijklmnopqrstuvwxyz'') c of
                 Some d \<Rightarrow> d | None \<Rightarrow> c) s"

definition toUpperCase :: "string \<Rightarrow> string" where
  "toUpperCase s =
     map (\<lambda>c. case map_of (zip ''abcdefghijklmnopqrstuvwxyz'' ''ABCDEFGHIJKLMNOPQRSTUVWXYZ'') c of
                 Some d \<Rightarrow> d | None \<Rightarrow> c) s"

text \<open>\<open>jqXHR.setRequestHeader\<close>: a header whose name was set before, in any letter case,
  keeps the name it was first given and takes the new value; a new name is added.\<close>

fun setHeader :: "string \<Rightarrow> string \<Rightarrow> xhr \<Rightarrow> xhr" where
  "setHeader name v [] = [(name, v)]"
| "setHeader name v ((n, x) # hs) =
     (if toLowerCase n = toLowerCase name then (n, v) # hs else (n, x) # setHeader name v hs)"

definition setRequestHeader :: "string \<Rightarrow> jsval \<Rightarrow> xhr \<Rightarrow> xhr" where
  "setRequestHeader name v x = setHeader name (ToString v) x"

text \<open>The value a request carries for a header name.\<close>

fun headerValue :: "string \<Rightarrow> xhr \<Rightarrow> string option" where
  "headerValue name [] = None"
| "headerValue name ((n, x) # hs) =
     (if toLowerCase n = toLowerCase name then Some x else headerValue name hs)"

text \<open>The options of a call; \<open>None\<close> is a property that is not given.\<close>

record options =
  o_type :: "string option"
  o_url :: "string option"
  o_data :: "payload option"
  o_contentType :: "string option"
  o_withCredentials :: bool
  o_beforeSend :: "(xhr \<Rightarrow> xhr) option"

text \<open>What \<open>sync\<close> reads from the model it is called for: its \<open>url()\<close> and its
  \<open>toJSON()\<close>.\<close>

record sync_model =
  m_url :: string
  m_json :: jsval

definition methodMap :: "string \<Rightarrow> string" where
  "methodMap method =
     (if method = ''create'' then ''POST''
      else if method = ''update'' then ''PUT''
      else if method = ''patch'' then ''PATCH''
      else if method = ''delete'' then ''DELETE''
      else ''GET'')"

text \<open>\<open>options.data == null\<close>, and whether data is there to be sent (\<open>if (s.data)\<close> in the
  transport). When \<open>processData\<close> is on, data that is not a string has first been turned
  into a query string, which is empty unless the data is an object or array with
  entries.\<close>

definition dataIsNull :: "payload option \<Rightarrow> bool" where
  "dataIsNull d =
     (case d of
        None \<Rightarrow> True
      | Some (JsonText v) \<Rightarrow> v = JUndefined
      | Some (Plain v) \<Rightarrow> v = JUndefined \<or> v = JNull)"

definition dataPresent :: "bool \<Rightarrow> payload option \<Rightarrow> bool" where
  "dataPresent processData d =
     (case d of
        None \<Rightarrow> False
      | Some (JsonText v) \<Rightarrow> v \<noteq> JUndefined
      | Some (Plain v) \<Rightarrow>
          (if processData then
             (case v of JStr t \<Rightarrow> t \<noteq> [] | JObj kvs \<Rightarrow> kvs \<noteq> [] | JArr xs \<Rightarrow> xs \<noteq> []
              | _ \<Rightarrow> False)
           else truthy v))"

text \<open>
  The library's own \<open>Backbone.sync\<close>, kept by the source as \<open>_sync\<close>, together with the
  \<open>jQuery.ajax\<close> it calls. Without a URL in the options the model's URL is taken, and the
  call raises an error when that is empty too. The request takes its type from the method
  unless the options give one; the model's JSON is the data of a create, update or patch
  whose options hold no data; \<open>processData\<close> stays on for a method that maps to \<open>GET\<close>
  only. Every property the options give overrides the one computed. The type is raised to
  upper case; data that is present goes to the query string of a \<open>GET\<close> or \<open>HEAD\<close>
  request, which has no body, and to the body of any other; \<open>beforeSend\<close> runs on the
  fresh request, and the request is sent.
\<close>

definition buildRequest :: "string \<Rightarrow> sync_model \<Rightarrow> options \<Rightarrow> request" where
  "buildRequest method model opts =
     (let fill = (dataIsNull (o_data opts) \<and> method \<in> set [''create'', ''update'', ''patch'']);
          dat = (case o_data opts of
                   Some d \<Rightarrow> Some d
                 | None \<Rightarrow> if fill then Some (JsonText (m_json model)) else None);
          typ = toUpperCase (case o_type opts of Some t \<Rightarrow> t | None \<Rightarrow> methodMap method);
          hasContent = (typ \<noteq> ''GET'' \<and> typ \<noteq> ''HEAD'');
          present = dataPresent (methodMap method = ''GET'') dat
      in
      \<lparr> r_url = (case o_url opts of Some u \<Rightarrow> u | None \<Rightarrow> m_url model),
        r_query = (if \<not> hasContent \<and> present then dat else None),
        r_type = typ,
        r_contentType = (case o_contentType opts of Some c \<Rightarrow> Some c
                         | None \<Rightarrow> if fill then Some ''application/json'' else None),
        r_withCredentials = o_withCredentials opts,
        r_headers = (case o_beforeSend opts of None \<Rightarrow> [] | Some f \<Rightarrow> f []),
        r_data = (if hasContent \<and> present then dat else None) \<rparr>)"

definition sync0 :: "server \<Rightarrow> string \<Rightarrow> sync_model \<Rightarrow> options \<Rightarrow> world \<Rightarrow> world \<times> reply promise" where
  "sync0 srv method model opts w =
     (if \<not> (case o_url opts of Some u \<Rightarrow> u \<noteq> [] | None \<Rightarrow> False) \<and> m_url model = []
      then (w, Raised)
      else ajax srv (buildRequest method model opts) w)"

text \<open>The override of \<open>Backbone.sync\<close>. \<open>appRoot\<close> is \<open>Backbone.Drupal.appRoot\<close>, which the
  application sets.\<close>

definition sync :: "string \<Rightarrow> server \<Rightarrow> string \<Rightarrow> sync_model \<Rightarrow> options \<Rightarrow> world \<Rightarrow> world \<times> reply promise" where
  "sync appRoot srv method model options0 w =
     (let url = (case o_url options0 of
                   Some u \<Rightarrow> if u \<noteq> [] then u else m_url model
                 | None \<Rightarrow> m_url model);
          opts = options0\<lparr>o_url := Some (appRoot @ url), o_withCredentials := True\<rparr>
      in case getCsrfToken appRoot srv w of
           (w1, Resolved token) \<Rightarrow>
             (let beforeSend0 = o_beforeSend opts;
                  opts = opts\<lparr>o_beforeSend := Some (\<lambda>x.
                           let x = setRequestHeader ''X-CSRF-Token'' token x in
                           case beforeSend0 of Some f \<Rightarrow> f x | None \<Rightarrow> x)\<rparr>
              in sync0 srv method model opts w1)
         | (w1, Rejected) \<Rightarrow> (w1, Rejected)
         | (w1, Pending) \<Rightarrow> (w1, Pending)
         | (w1, Raised) \<Rightarrow> (w1, Raised))"

section \<open>The session\<close>

record session =
  loggedIn :: bool
  user :: attrs

text \<open>A new session: the default \<open>loggedIn: false\<close> and a user model without attributes.\<close>

definition Session_new :: session where
  "Session_new = \<lparr> loggedIn = False, user = Map.empty \<rparr>"

text \<open>The session as the model argument of \<open>sync\<close>; its \<open>url()\<close> is never read, since
  \<open>doPost\<close> always gives the URL.\<close>

definition Session_model :: "session \<Rightarrow> sync_model" where
  "Session_model s = \<lparr> m_url = [], m_json = JObj [(''loggedIn'', JBool (loggedIn s))] \<rparr>"

text \<open>\<open>Session.doPost\<close>.\<close>

definition doPost :: "string \<Rightarrow> server \<Rightarrow> session \<Rightarrow> string \<Rightarrow> jsval option \<Rightarrow> world \<Rightarrow> world \<times> reply promise" where
  "doPost appRoot srv s postUrl postData w =
     sync appRoot srv ''read'' (Session_model s)
       \<lparr> o_type = Some ''POST'', o_url = Some postUrl,
         o_data = (case postData of
                     None \<Rightarrow> Some (Plain JNull)
                   | Some d \<Rightarrow> if truthy d then Some (JsonText d) else Some (Plain JNull)),
         o_contentType = Some ''application/json'',
         o_withCredentials = False, o_beforeSend = None \<rparr> w"

text \<open>\<open>Session.login\<close>. The promise it returns is that of its own deferred, which only the
  success callbacks resolve.\<close>

definition login :: "string \<Rightarrow> server \<Rightarrow> jsval \<Rightarrow> jsval \<Rightarrow> session \<times> world \<Rightarrow> (session \<times> world) \<times> attrs promise" where
  "login appRoot srv username password sw =
     (let s = fst sw; w = snd sw in
      if loggedIn s then ((s, w), Resolved (user s))
      else
        case doPost appRoot srv s ''/system/connect'' None w of
          (w1, Resolved d) \<Rightarrow>
            (let s1 = s\<lparr>loggedIn := True\<rparr> in
             if looseNeqZero (getp (data_user d) ''uid'') then
               (let s2 = s1\<lparr>user := Entity_set User (KeyObject (data_user d)) JUndefined (user s1)\<rparr>
                in ((s2, w1), Resolved (user s2)))
             else
               case doPost appRoot srv s1 ''/user/login''
                      (Some (JObj [(''username'', username), (''password'', password)])) w1 of
                 (w2, Resolved d2) \<Rightarrow>
                   (let w3 = setCsrfToken (data_token d2) w2;
                        s2 = s1\<lparr>user := Entity_set User (KeyObject (data_user d2)) JUndefined (user s1)\<rparr>
                    in ((s2, w3), Resolved (user s2)))
               | (w2, _) \<Rightarrow> ((s1, w2), Pending))
        | (w1, _) \<Rightarrow> ((s, w1), Pending))"

text \<open>\<open>Session.logout\<close>.\<close>

definition logout :: "string \<Rightarrow> server \<Rightarrow> session \<times> world \<Rightarrow> (session \<times> world) \<times> reply promise" where
  "logout appRoot srv sw =
     (let s = fst sw; w = snd sw in
      case doPost appRoot srv s ''/user/logout'' None w of
        (w1, Resolved d) \<Rightarrow> ((s\<lparr>loggedIn := False\<rparr>, resetCsrfToken w1), Resolved d)
      | (w1, r) \<Rightarrow> ((s, w1), r))"

text \<open>The request that \<open>sync\<close> sends once the token is known: the options as \<open>sync\<close>
  completes them, read by \<open>sync0\<close>.\<close>

definition syncRequest :: "string \<Rightarrow> string \<Rightarrow> sync_model \<Rightarrow> options \<Rightarrow> jsval \<Rightarrow> request" where
  "syncRequest appRoot method model opts token =
     (let fill = (dataIsNull (o_data opts) \<and> method \<in> set [''create'', ''update'', ''patch'']);
          dat = (case o_data opts of
                   Some d \<Rightarrow> Some d
                 | None \<Rightarrow> if fill then Some (JsonText (m_json model)) else None);
          typ = toUpperCase (case o_type opts of Some t \<Rightarrow> t | None \<Rightarrow> methodMap method);
          hasContent = (typ \<noteq> ''GET'' \<and> typ \<noteq> ''HEAD'');
          present = dataPresent (methodMap method = ''GET'') dat
      in
      \<lparr> r_url = appRoot @ (case o_url opts of Some u \<Rightarrow> if u \<noteq> [] then u else m_url model
                           | None \<Rightarrow> m_url model),
        r_query = (if \<not> hasContent \<and> present then dat else None),
        r_type = typ,
        r_contentType = (case o_contentType opts of Some c \<Rightarrow> Some c
                         | None \<Rightarrow> if fill then Some ''application/json'' else None),
        r_withCredentials = True,
        r_headers = (case o_beforeSend opts of
                       None \<Rightarrow> setRequestHeader ''X-CSRF-Token'' token []
                     | Some f \<Rightarrow> f (setRequestHeader ''X-CSRF-Token'' token [])),
        r_data = (if hasContent \<and> present then dat else None) \<rparr>)"

section \<open>Example runs\<close>

text \<open>The world before any request, and three servers under the application root
  \<open>/rest\<close>: one that answers the token and connect requests (with the anonymous user) and
  fails every other request, one that also accepts the login and the logout, and one that
  fails every request.\<close>

definition world0 :: world where
  "world0 = \<lparr> getCsrfToken_token = JUndefined, sent = [] \<rparr>"

definition srv_refuse :: server where
  "srv_refuse hist req =
     (if r_url req = ''/rest/user/token'' then
        Success \<lparr> data_token = JStr ''t1'', data_user = Map.empty \<rparr>
      else if r_url req = ''/rest/system/connect'' then
        Success \<lparr> data_token = JUndefined, data_user = Map.empty(''uid'' \<mapsto> JNum (JInt 0)) \<rparr>
      else Failure)"

definition srv_accept :: server where
  "srv_accept hist req =
     (if r_url req = ''/rest/user/token'' then
        Success \<lparr> data_token = JStr ''t1'', data_user = Map.empty \<rparr>
      else if r_url req = ''/rest/system/connect'' then
        Success \<lparr> data_token = JUndefined, data_user = Map.empty(''uid'' \<mapsto> JNum (JInt 0)) \<rparr>
      else if r_url req = ''/rest/user/login'' then
        Success \<lparr> data_token = JStr ''t2'',
                  data_user = Map.empty(''uid'' \<mapsto> JStr ''5'', ''name'' \<mapsto> JStr ''ann'') \<rparr>
      else if r_url req = ''/rest/user/logout'' then
        Success \<lparr> data_token = JUndefined, data_user = Map.empty \<rparr>
      else Failure)"

definition srv_down :: server where
  "srv_down hist req = Failure"

section \<open>Evaluation rules and auxiliary facts\<close>

lemmas conv_defs = convertInteger_def parseInt_def parseIntStr_def isNaN_def isWhiteSpace_def
  isRadixDigit_def digitVal_def radixValue_def numToString_def natToDec.simps digitChar_def

lemmas net_defs = getCsrfToken_def ajax_def tokenRequest_def setCsrfToken_def
  resetCsrfToken_def truthy_def Session_new_def world0_def

lemma toUpperCase_methods:
  "toUpperCase ''GET'' = ''GET''" "toUpperCase ''POST'' = ''POST''"
  "toUpperCase ''PUT'' = ''PUT''" "toUpperCase ''PATCH'' = ''PATCH''"
  "toUpperCase ''DELETE'' = ''DELETE''"
  by (simp_all add: toUpperCase_def)

lemma foldl_convertField:
  "distinct ks \<Longrightarrow> foldl (convertField f) a ks k =
     (if k \<in> set ks \<and> getp a k \<noteq> JUndefined then Some (f (getp a k)) else a k)"
proof (induction ks arbitrary: a)
  case Nil
  then show ?case by simp
next
  case (Cons x xs)
  then show ?case
    by (auto simp: convertField_def getp_def split: option.splits)
qed

lemma toJSON_lookup:
  assumes "distinct (integerFields cls)" and "distinct (booleanFields cls)"
    and "set (integerFields cls) \<inter> set (booleanFields cls) = {}"
  shows "toJSON cls a k =
     (if k = ''rdf_mapping'' then None
      else if k \<in> set (integerFields cls) \<and> getp a k \<noteq> JUndefined
        then Some (convertInteger (getp a k))
      else if k \<in> set (booleanFields cls) \<and> getp a k \<noteq> JUndefined
        then Some (convertBoolOutput (getp a k))
      else a k)"
  using assms
  by (auto simp: toJSON_def Model_toJSON_def Let_def foldl_convertField getp_def)

lemma entity_classes_fields:
  assumes "cls \<in> set entity_classes"
  shows "distinct (integerFields cls) \<and> distinct (booleanFields cls)
       \<and> set (integerFields cls) \<inter> set (booleanFields cls) = {}"
  using assms
  by (auto simp: entity_classes_def Entity_def File_def Node_def TaxonomyTerm_def
        TaxonomyVocabulary_def User_def)

lemma File_query_values:
  "ToString (convertInteger fileContents) = ''0''"
  "ToString (convertInteger imageStyles) = ''1''"
  by (simp_all add: fileContents_def imageStyles_def conv_defs)

lemma getCsrfToken_cached:
  "truthy (getCsrfToken_token w) \<Longrightarrow>
   getCsrfToken appRoot srv w = (w, Resolved (getCsrfToken_token w))"
  by (simp add: getCsrfToken_def)

lemma getCsrfToken_fetch:
  "\<not> truthy (getCsrfToken_token w) \<Longrightarrow>
   getCsrfToken appRoot srv w =
     (case srv (sent w) (tokenRequest appRoot) of
        Success d \<Rightarrow> (w\<lparr>sent := sent w @ [tokenRequest appRoot], getCsrfToken_token := data_token d\<rparr>,
                      Resolved (data_token d))
      | Failure \<Rightarrow> (w\<lparr>sent := sent w @ [tokenRequest appRoot]\<rparr>, Rejected))"
  by (simp add: getCsrfToken_def ajax_def setCsrfToken_def split: response.splits)

lemma getCsrfToken_not_pending: "getCsrfToken appRoot srv w \<noteq> (w1, Pending)"
  by (auto simp: getCsrfToken_def ajax_def split: response.splits)

lemma getCsrfToken_not_raised: "getCsrfToken appRoot srv w \<noteq> (w1, Raised)"
  by (auto simp: getCsrfToken_def ajax_def split: response.splits)

lemma getCsrfToken_rejected_sent:
  "getCsrfToken appRoot srv w = (w1, Rejected) \<Longrightarrow> w1 = w\<lparr>sent := sent w @ [tokenRequest appRoot]\<rparr>"
  by (auto simp: getCsrfToken_def ajax_def split: if_splits response.splits)

lemma headerValue_setHeader: "headerValue name (setHeader name v x) = Some v"
  by (induction x) auto

lemma headerValue_setRequestHeader:
  "headerValue name (setRequestHeader name v x) = Some (ToString v)"
  by (simp add: setRequestHeader_def headerValue_setHeader)

lemma syncRequest_url_empty:
  "r_url (syncRequest appRoot method model opts token) = [] \<longleftrightarrow>
     appRoot = [] \<and> m_url model = [] \<and> \<not> (case o_url opts of Some u \<Rightarrow> u \<noteq> [] | None \<Rightarrow> False)"
  by (auto simp: syncRequest_def Let_def split: option.splits)

lemma buildRequest_sync:
  "buildRequest method model
     (opts\<lparr>o_url := Some (r_url (syncRequest appRoot method model opts token)),
           o_withCredentials := True,
           o_beforeSend := Some (\<lambda>x.
             let x = setRequestHeader ''X-CSRF-Token'' token x in
             case o_beforeSend opts of Some f \<Rightarrow> f x | None \<Rightarrow> x)\<rparr>) =
   syncRequest appRoot method model opts token"
  by (cases "o_beforeSend opts") (simp_all add: buildRequest_def syncRequest_def Let_def)

lemma sync_sync0:
  "sync appRoot srv method model opts w =
     (case getCsrfToken appRoot srv w of
        (w1, Resolved token) \<Rightarrow>
          sync0 srv method model
            (opts\<lparr>o_url := Some (r_url (syncRequest appRoot method model opts token)),
                  o_withCredentials := True,
                  o_beforeSend := Some (\<lambda>x.
                    let x = setRequestHeader ''X-CSRF-Token'' token x in
                    case o_beforeSend opts of Some f \<Rightarrow> f x | None \<Rightarrow> x)\<rparr>) w1
      | (w1, Rejected) \<Rightarrow> (w1, Rejected)
      | (w1, Pending) \<Rightarrow> (w1, Pending)
      | (w1, Raised) \<Rightarrow> (w1, Raised))"
  by (simp add: sync_def syncRequest_def Let_def split: prod.splits promise.splits)

lemma sync_resolved:
  assumes g: "getCsrfToken appRoot srv w = (w1, Resolved token)"
    and u: "r_url (syncRequest appRoot method model opts token) \<noteq> []"
  shows "sync appRoot srv method model opts w =
           ajax srv (syncRequest appRoot method model opts token) w1"
  using g u by (simp add: sync_sync0 sync0_def buildRequest_sync)

lemma sync_raised:
  assumes g: "getCsrfToken appRoot srv w = (w1, Resolved token)"
    and u: "r_url (syncRequest appRoot method model opts token) = []"
  shows "sync appRoot srv method model opts w = (w1, Raised)"
proof -
  from u have e: "m_url model = []"
    by (simp add: syncRequest_url_empty)
  from g u e show ?thesis
    by (simp add: sync_sync0 sync0_def)
qed

lemma sync_rejected:
  "getCsrfToken appRoot srv w = (w1, Rejected) \<Longrightarrow>
   sync appRoot srv method model opts w = (w1, Rejected)"
  by (simp add: sync_def)

lemma sync_cases:
  "sync appRoot srv method model opts w =
    (case getCsrfToken appRoot srv w of
       (w1, Resolved token) \<Rightarrow>
         if r_url (syncRequest appRoot method model opts token) = [] then (w1, Raised)
         else ajax srv (syncRequest appRoot method model opts token) w1
     | (w1, r) \<Rightarrow> (w1, Rejected))"
  using getCsrfToken_not_pending[of appRoot srv w] getCsrfToken_not_raised[of appRoot srv w]
  by (auto simp: sync_resolved sync_raised sync_rejected split: prod.splits promise.splits)

lemma sync_token:
  "getCsrfToken_token (fst (sync appRoot srv method model opts w)) =
   getCsrfToken_token (fst (getCsrfToken appRoot srv w))"
  by (auto simp: sync_cases ajax_def split: prod.splits promise.splits)

lemma doPost_token:
  "getCsrfToken_token (fst (doPost appRoot srv s url d w)) =
   getCsrfToken_token (fst (getCsrfToken appRoot srv w))"
  by (simp add: doPost_def sync_token)

text \<open>The request of \<open>doPost\<close>.\<close>

lemma doPost_cases:
  assumes "postUrl \<noteq> []"
  shows "doPost appRoot srv s postUrl postData w =
    (case getCsrfToken appRoot srv w of
       (w1, Resolved token) \<Rightarrow>
         ajax srv \<lparr> r_url = appRoot @ postUrl, r_query = None, r_type = ''POST'',
                    r_contentType = Some ''application/json'', r_withCredentials = True,
                    r_headers = [(''X-CSRF-Token'', ToString token)],
                    r_data = (case postData of
                                None \<Rightarrow> None
                              | Some d \<Rightarrow> if truthy d then Some (JsonText d) else None) \<rparr> w1
     | (w1, r) \<Rightarrow> (w1, Rejected))"
proof -
  let ?o = "\<lparr> o_type = Some ''POST'', o_url = Some postUrl,
         o_data = (case postData of
                     None \<Rightarrow> Some (Plain JNull)
                   | Some d \<Rightarrow> if truthy d then Some (JsonText d) else Some (Plain JNull)),
         o_contentType = Some ''application/json'',
         o_withCredentials = False, o_beforeSend = None \<rparr>"
  have u: "truthy d \<Longrightarrow> d \<noteq> JUndefined" for d
    by (auto simp: truthy_def)
  have q: "syncRequest appRoot ''read'' (Session_model s) ?o token =
         \<lparr> r_url = appRoot @ postUrl, r_query = None, r_type = ''POST'',
                    r_contentType = Some ''application/json'', r_withCredentials = True,
                    r_headers = [(''X-CSRF-Token'', ToString token)],
                    r_data = (case postData of
                                None \<Rightarrow> None
                              | Some d \<Rightarrow> if truthy d then Some (JsonText d) else None) \<rparr>" for token
    using assms u
    by (auto simp: syncRequest_def Let_def toUpperCase_methods dataIsNull_def dataPresent_def
          methodMap_def truthy_def setRequestHeader_def split: option.splits)
  show ?thesis
    unfolding doPost_def sync_cases q using assms
    by (auto split: prod.splits promise.splits)
qed

section \<open>Session state after a refused login\<close>

text \<open>
  Claim C1. In every reachable state of the session, \<open>loggedIn\<close> is true exactly when an
  authentication exchange has succeeded and the user model holds a non-anonymous identity
  confirmed by the server. The run below reaches a state where this fails: the connect
  request is answered with the anonymous user (uid 0) and the login request fails. The
  session then has \<open>loggedIn = true\<close>, a user model without any attribute, and a promise
  that stays pending; a further \<open>login\<close> resolves at once with that empty user and sends
  nothing.
\<close>

theorem login_refused_loggedIn:
  "login ''/rest'' srv_refuse (JStr ''ann'') (JStr ''bad'') (Session_new, world0) =
     ((\<lparr> loggedIn = True, user = Map.empty \<rparr>,
       \<lparr> getCsrfToken_token = JStr ''t1'',
         sent = [tokenRequest ''/rest'',
                 \<lparr> r_url = ''/rest/system/connect'', r_query = None, r_type = ''POST'',
                   r_contentType = Some ''application/json'', r_withCredentials = True,
                   r_headers = [(''X-CSRF-Token'', ''t1'')], r_data = None \<rparr>,
                 \<lparr> r_url = ''/rest/user/login'', r_query = None, r_type = ''POST'',
                   r_contentType = Some ''application/json'', r_withCredentials = True,
                   r_headers = [(''X-CSRF-Token'', ''t1'')],
                   r_data = Some (JsonText (JObj [(''username'', JStr ''ann''),
                                        (''password'', JStr ''bad'')])) \<rparr>] \<rparr>),
      Pending)
   \<and> login ''/rest'' srv_refuse (JStr ''ann'') (JStr ''bad'')
        (fst (login ''/rest'' srv_refuse (JStr ''ann'') (JStr ''bad'') (Session_new, world0))) =
       (fst (login ''/rest'' srv_refuse (JStr ''ann'') (JStr ''bad'') (Session_new, world0)),
        Resolved Map.empty)"
proof -
  have run: "login ''/rest'' srv_refuse (JStr ''ann'') (JStr ''bad'') (Session_new, world0) =
     ((\<lparr> loggedIn = True, user = Map.empty \<rparr>,
       \<lparr> getCsrfToken_token = JStr ''t1'',
         sent = [tokenRequest ''/rest'',
                 \<lparr> r_url = ''/rest/system/connect'', r_query = None, r_type = ''POST'',
                   r_contentType = Some ''application/json'', r_withCredentials = True,
                   r_headers = [(''X-CSRF-Token'', ''t1'')], r_data = None \<rparr>,
                 \<lparr> r_url = ''/rest/user/login'', r_query = None, r_type = ''POST'',
                   r_contentType = Some ''application/json'', r_withCredentials = True,
                   r_headers = [(''X-CSRF-Token'', ''t1'')],
                   r_data = Some (JsonText (JObj [(''username'', JStr ''ann''),
                                        (''password'', JStr ''bad'')])) \<rparr>] \<rparr>),
      Pending)"
    by (simp add: login_def doPost_cases net_defs srv_refuse_def looseNeqZero_def getp_def)
  show ?thesis
    unfolding run by (simp add: login_def)
qed

section \<open>The resource path of a file\<close>

text \<open>
  Claim C2, as the code has it. For every file model that is not new, \<open>File.url\<close> is the
  id-qualified path of \<open>Entity.url\<close> followed by the query
  \<open>?file_contents=0&image_styles=1\<close>: the prototype gives \<open>fileContents: 0\<close> and
  \<open>imageStyles: 1\<close>. In particular the file model with \<open>fid\<close> 7 has the path
  \<open>/file/7?file_contents=0&image_styles=1\<close>.
\<close>

theorem File_url_query:
  "(\<not> isNew File a \<longrightarrow> File_url a = Entity_url File a @ ''?file_contents=0&image_styles=1'')
   \<and> File_url (Map.empty(''fid'' \<mapsto> JNum (JInt 7))) = ''/file/7?file_contents=0&image_styles=1''"
proof -
  have g: "\<not> isNew File a \<Longrightarrow> File_url a = Entity_url File a @ ''?file_contents=0&image_styles=1''"
    by (simp add: File_url_def File_query_values)
  have s: "File_url (Map.empty(''fid'' \<mapsto> JNum (JInt 7))) = ''/file/7?file_contents=0&image_styles=1''"
    by (simp add: File_url_def Entity_url_def isNew_def File_def getp_def keyName_def
          File_query_values numToString_def natToDec.simps digitChar_def
          encodeURIComponent_def encodeUnit_def isUnreserved_def)
  from g s show ?thesis by blast
qed

theorem File_url_query_witness:
  "\<not> isNew File (Map.empty(''fid'' \<mapsto> JNum (JInt 42)))
   \<and> File_url (Map.empty(''fid'' \<mapsto> JNum (JInt 42))) = ''/file/42?file_contents=0&image_styles=1''"
proof -
  have n: "\<not> isNew File (Map.empty(''fid'' \<mapsto> JNum (JInt 42)))"
    by (simp add: isNew_def File_def getp_def keyName_def)
  have e: "Entity_url File (Map.empty(''fid'' \<mapsto> JNum (JInt 42))) = ''/file/42''"
    by (simp add: Entity_url_def isNew_def File_def getp_def keyName_def
          numToString_def natToDec.simps digitChar_def
          encodeURIComponent_def encodeUnit_def isUnreserved_def)
  from File_url_query[of "Map.empty(''fid'' \<mapsto> JNum (JInt 42))"] n e show ?thesis by simp
qed

text \<open>The path the claim gives for the file with \<open>fid\<close> 7, ending in \<open>image_styles=0\<close>, is
  not the one computed.\<close>

theorem File_url_7_counterexample:
  "File_url (Map.empty(''fid'' \<mapsto> JNum (JInt 7))) \<noteq> ''/file/7?file_contents=0&image_styles=0''"
  by (simp add: File_url_def Entity_url_def isNew_def File_def getp_def keyName_def
        File_query_values numToString_def natToDec.simps digitChar_def
        encodeURIComponent_def encodeUnit_def isUnreserved_def)

section \<open>The boolean output conversion\<close>

text \<open>
  Claim C3. For every value \<open>v\<close>, \<open>convertBoolOutput\<close> gives \<open>true\<close> when \<open>v\<close> is a number
  greater than 0, the boolean \<open>true\<close>, or one of the strings \<open>"1"\<close> and \<open>"true"\<close>, and
  gives \<open>null\<close> for every other value, among them \<open>false\<close>, \<open>0\<close>, \<open>"0"\<close> and \<open>null\<close>; it
  never gives \<open>false\<close>.
\<close>

theorem convertBoolOutput_true_or_null:
  "convertBoolOutput v =
     (if (\<exists>n. v = JNum n \<and> gtZero n) \<or> v = JBool True \<or> v = JStr ''1'' \<or> v = JStr ''true''
      then JBool True else JNull)
   \<and> convertBoolOutput v \<noteq> JBool False
   \<and> convertBoolOutput (JBool False) = JNull
   \<and> convertBoolOutput (JNum (JInt 0)) = JNull
   \<and> convertBoolOutput (JStr ''0'') = JNull
   \<and> convertBoolOutput JNull = JNull"
  by (cases v) (auto simp: convertBoolOutput_def gtZero_def)

section \<open>Serialisation\<close>

text \<open>
  Claim C4. For every entity class of the source and every attribute set, \<open>toJSON\<close>
  returns the attributes (the same keys, without \<open>rdf_mapping\<close>) where each field listed in
  \<open>integerFields\<close> that holds a value is replaced by its integer conversion, each field
  listed in \<open>booleanFields\<close> that holds a value by its boolean output conversion, and every
  other field is kept; the key \<open>rdf_mapping\<close> is never in the result. A field that is
  missing or holds \<open>undefined\<close> holds no value and stays as it is.
\<close>

theorem toJSON_serialize:
  assumes "cls \<in> set entity_classes"
  shows "toJSON cls a ''rdf_mapping'' = None
       \<and> dom (toJSON cls a) = dom a - {''rdf_mapping''}
       \<and> (\<forall>k v. k \<noteq> ''rdf_mapping'' \<and> a k = Some v \<and> v \<noteq> JUndefined \<longrightarrow>
             (k \<in> set (integerFields cls) \<longrightarrow> toJSON cls a k = Some (convertInteger v))
           \<and> (k \<in> set (booleanFields cls) \<longrightarrow> toJSON cls a k = Some (convertBoolOutput v))
           \<and> (k \<notin> set (integerFields cls) \<and> k \<notin> set (booleanFields cls) \<longrightarrow>
                toJSON cls a k = Some v))
       \<and> (\<forall>k. k \<noteq> ''rdf_mapping'' \<and> a k = Some JUndefined \<longrightarrow>
             toJSON cls a k = Some JUndefined)"
proof -
  note f = entity_classes_fields[OF assms]
  have L: "\<And>k. toJSON cls a k =
     (if k = ''rdf_mapping'' then None
      else if k \<in> set (integerFields cls) \<and> getp a k \<noteq> JUndefined
        then Some (convertInteger (getp a k))
      else if k \<in> set (booleanFields cls) \<and> getp a k \<noteq> JUndefined
        then Some (convertBoolOutput (getp a k))
      else a k)"
    using f by (intro toJSON_lookup) auto
  have 1: "toJSON cls a ''rdf_mapping'' = None" by (simp add: L)
  have 2: "dom (toJSON cls a) = dom a - {''rdf_mapping''}"
    by (auto simp: L dom_def getp_def split: if_splits option.splits)
  have 3: "\<forall>k v. k \<noteq> ''rdf_mapping'' \<and> a k = Some v \<and> v \<noteq> JUndefined \<longrightarrow>
             (k \<in> set (integerFields cls) \<longrightarrow> toJSON cls a k = Some (convertInteger v))
           \<and> (k \<in> set (booleanFields cls) \<longrightarrow> toJSON cls a k = Some (convertBoolOutput v))
           \<and> (k \<notin> set (integerFields cls) \<and> k \<notin> set (booleanFields cls) \<longrightarrow>
                toJSON cls a k = Some v)"
    using f by (auto simp: L getp_def)
  have 4: "\<forall>k. k \<noteq> ''rdf_mapping'' \<and> a k = Some JUndefined \<longrightarrow>
             toJSON cls a k = Some JUndefined"
    by (simp add: L getp_def)
  from 1 2 3 4 show ?thesis by blast
qed

text \<open>A node with a string uid, a numeric status, a title and an \<open>rdf_mapping\<close>.\<close>

theorem toJSON_serialize_witness:
  "Node \<in> set entity_classes
   \<and> toJSON Node (Map.empty(''uid'' \<mapsto> JStr ''3'', ''status'' \<mapsto> JNum (JInt 1),
        ''title'' \<mapsto> JStr ''t'', ''rdf_mapping'' \<mapsto> JObj [])) ''rdf_mapping'' = None
   \<and> toJSON Node (Map.empty(''uid'' \<mapsto> JStr ''3'', ''status'' \<mapsto> JNum (JInt 1),
        ''title'' \<mapsto> JStr ''t'', ''rdf_mapping'' \<mapsto> JObj [])) ''uid'' = Some (JNum (JInt 3))
   \<and> toJSON Node (Map.empty(''uid'' \<mapsto> JStr ''3'', ''status'' \<mapsto> JNum (JInt 1),
        ''title'' \<mapsto> JStr ''t'', ''rdf_mapping'' \<mapsto> JObj [])) ''status'' = Some (JBool True)
   \<and> toJSON Node (Map.empty(''uid'' \<mapsto> JStr ''3'', ''status'' \<mapsto> JNum (JInt 1),
        ''title'' \<mapsto> JStr ''t'', ''rdf_mapping'' \<mapsto> JObj [])) ''title'' = Some (JStr ''t'')"
proof -
  let ?a = "Map.empty(''uid'' \<mapsto> JStr ''3'', ''status'' \<mapsto> JNum (JInt 1),
        ''title'' \<mapsto> JStr ''t'', ''rdf_mapping'' \<mapsto> JObj [])"
  have m: "Node \<in> set entity_classes" by (simp add: entity_classes_def)
  note t = toJSON_serialize[OF m, of ?a]
  from t have r: "toJSON Node ?a ''rdf_mapping'' = None" by blast
  from t have q: "\<forall>k v. k \<noteq> ''rdf_mapping'' \<and> ?a k = Some v \<and> v \<noteq> JUndefined \<longrightarrow>
             (k \<in> set (integerFields Node) \<longrightarrow> toJSON Node ?a k = Some (convertInteger v))
           \<and> (k \<in> set (booleanFields Node) \<longrightarrow> toJSON Node ?a k = Some (convertBoolOutput v))
           \<and> (k \<notin> set (integerFields Node) \<and> k \<notin> set (booleanFields Node) \<longrightarrow>
                toJSON Node ?a k = Some v)" by blast
  from q[rule_format, of "''uid''" "JStr ''3''"]
  have u: "toJSON Node ?a ''uid'' = Some (JNum (JInt 3))"
    by (simp add: Node_def conv_defs)
  from q[rule_format, of "''status''" "JNum (JInt 1)"]
  have st: "toJSON Node ?a ''status'' = Some (JBool True)"
    by (simp add: Node_def convertBoolOutput_def gtZero_def)
  from q[rule_format, of "''title''" "JStr ''t''"]
  have ti: "toJSON Node ?a ''title'' = Some (JStr ''t'')"
    by (simp add: Node_def)
  from m r u st ti show ?thesis by blast
qed

section \<open>Login when already logged in\<close>

text \<open>
  Claim C5. When the session is logged in, \<open>login\<close> resolves at once with the current user
  model and leaves the session, the token store and the list of sent requests as they
  are: no request is made. Whenever a \<open>login\<close> has resolved, a \<open>login\<close> that follows it
  (whatever the server and the credentials) is such a call: it resolves with the same
  user and sends nothing.
\<close>

theorem login_short_circuit:
  "(loggedIn s \<longrightarrow> login appRoot srv username password (s, w) = ((s, w), Resolved (user s)))
   \<and> (\<forall>s' w' usr. login appRoot srv username password (s, w) = ((s', w'), Resolved usr) \<longrightarrow>
         login appRoot srv2 username2 password2 (s', w') = ((s', w'), Resolved usr))"
proof -
  have a: "loggedIn t \<Longrightarrow> login r sv u p (t, v) = ((t, v), Resolved (user t))" for t v r sv u p
    by (simp add: login_def)
  have b: "login appRoot srv username password (s, w) = ((s', w'), Resolved usr) \<Longrightarrow>
           loggedIn s' \<and> usr = user s'" for s' w' usr
    by (auto simp: login_def Let_def split: if_splits prod.splits promise.splits)
  show ?thesis using a b by blast
qed

text \<open>A first login that is accepted, then a second one while the server is down.\<close>

theorem login_short_circuit_witness:
  "loggedIn (fst (fst (login ''/rest'' srv_accept (JStr ''ann'') (JStr ''pw'') (Session_new, world0))))
   \<and> snd (login ''/rest'' srv_accept (JStr ''ann'') (JStr ''pw'') (Session_new, world0)) =
       Resolved (user (fst (fst (login ''/rest'' srv_accept (JStr ''ann'') (JStr ''pw'')
          (Session_new, world0)))))
   \<and> login ''/rest'' srv_down (JStr ''ann'') (JStr ''pw'')
        (fst (login ''/rest'' srv_accept (JStr ''ann'') (JStr ''pw'') (Session_new, world0))) =
       login ''/rest'' srv_accept (JStr ''ann'') (JStr ''pw'') (Session_new, world0)"
proof -
  let ?r = "login ''/rest'' srv_accept (JStr ''ann'') (JStr ''pw'') (Session_new, world0)"
  have res: "snd ?r = Resolved (user (fst (fst ?r)))"
    by (simp add: login_def doPost_cases net_defs srv_accept_def looseNeqZero_def getp_def)
  have li: "loggedIn (fst (fst ?r))"
    by (simp add: login_def doPost_cases net_defs srv_accept_def looseNeqZero_def getp_def)
  have e: "?r = ((fst (fst ?r), snd (fst ?r)), Resolved (user (fst (fst ?r))))"
    using res by (simp add: prod_eq_iff)
  from login_short_circuit[of Session_new "''/rest''" srv_accept "JStr ''ann''" "JStr ''pw''" world0
      srv_down "JStr ''ann''" "JStr ''pw''"] e
  have "login ''/rest'' srv_down (JStr ''ann'') (JStr ''pw'') (fst (fst ?r), snd (fst ?r)) =
        ((fst (fst ?r), snd (fst ?r)), Resolved (user (fst (fst ?r))))"
    by blast
  with e have "login ''/rest'' srv_down (JStr ''ann'') (JStr ''pw'') (fst ?r) = ?r" by simp
  with li res show ?thesis by blast
qed

section \<open>The token store\<close>

text \<open>
  Claim C6. When a token is cached (the stored value is truthy), \<open>getCsrfToken\<close> resolves
  with it and sends nothing. Otherwise it sends exactly one request, to the token
  endpoint, and when that request succeeds the token of the reply is stored and is the
  value the promise resolves with. After \<open>resetCsrfToken\<close> no token is cached, so the
  next \<open>getCsrfToken\<close> sends the token request again.
\<close>

theorem getCsrfToken_store:
  "(truthy (getCsrfToken_token w) \<longrightarrow>
      getCsrfToken appRoot srv w = (w, Resolved (getCsrfToken_token w)))
   \<and> (\<not> truthy (getCsrfToken_token w) \<longrightarrow>
        sent (fst (getCsrfToken appRoot srv w)) = sent w @ [tokenRequest appRoot]
      \<and> (\<forall>d. srv (sent w) (tokenRequest appRoot) = Success d \<longrightarrow>
            getCsrfToken appRoot srv w =
              (w\<lparr>sent := sent w @ [tokenRequest appRoot], getCsrfToken_token := data_token d\<rparr>,
               Resolved (data_token d))))
   \<and> \<not> truthy (getCsrfToken_token (resetCsrfToken w))
   \<and> sent (fst (getCsrfToken appRoot srv (resetCsrfToken w))) = sent w @ [tokenRequest appRoot]"
proof -
  have a: "\<not> truthy (getCsrfToken_token (resetCsrfToken w))"
    by (simp add: resetCsrfToken_def truthy_def)
  have b: "\<not> truthy (getCsrfToken_token v) \<Longrightarrow>
      sent (fst (getCsrfToken appRoot srv v)) = sent v @ [tokenRequest appRoot]" for v
    by (simp add: getCsrfToken_fetch split: response.splits)
  have c: "sent (resetCsrfToken w) = sent w" by (simp add: resetCsrfToken_def)
  show ?thesis using a b[of w] b[OF a] c
    by (auto simp: getCsrfToken_cached getCsrfToken_fetch)
qed

text \<open>An empty store fetches the token \<open>t1\<close>; a store holding \<open>t1\<close> answers without the
  server.\<close>

theorem getCsrfToken_store_witness:
  "\<not> truthy (getCsrfToken_token world0)
   \<and> srv_accept (sent world0) (tokenRequest ''/rest'') =
        Success \<lparr> data_token = JStr ''t1'', data_user = Map.empty \<rparr>
   \<and> getCsrfToken ''/rest'' srv_accept world0 =
       (\<lparr> getCsrfToken_token = JStr ''t1'', sent = [tokenRequest ''/rest''] \<rparr>, Resolved (JStr ''t1''))
   \<and> truthy (getCsrfToken_token \<lparr> getCsrfToken_token = JStr ''t1'', sent = [tokenRequest ''/rest''] \<rparr>)
   \<and> getCsrfToken ''/rest'' srv_down \<lparr> getCsrfToken_token = JStr ''t1'', sent = [tokenRequest ''/rest''] \<rparr> =
       (\<lparr> getCsrfToken_token = JStr ''t1'', sent = [tokenRequest ''/rest''] \<rparr>, Resolved (JStr ''t1''))"
proof -
  let ?w = "\<lparr> getCsrfToken_token = JStr ''t1'', sent = [tokenRequest ''/rest''] \<rparr>"
  have n: "\<not> truthy (getCsrfToken_token world0)" by (simp add: world0_def truthy_def)
  have a: "srv_accept (sent world0) (tokenRequest ''/rest'') =
        Success \<lparr> data_token = JStr ''t1'', data_user = Map.empty \<rparr>"
    by (simp add: srv_accept_def tokenRequest_def)
  have t: "truthy (getCsrfToken_token ?w)" by (simp add: truthy_def)
  from getCsrfToken_store[of world0 "''/rest''" srv_accept] n a
  have 1: "getCsrfToken ''/rest'' srv_accept world0 = (?w, Resolved (JStr ''t1''))"
    by (simp add: world0_def)
  from getCsrfToken_store[of ?w "''/rest''" srv_down] t
  have 2: "getCsrfToken ''/rest'' srv_down ?w = (?w, Resolved (JStr ''t1''))"
    by simp
  from n a 1 t 2 show ?thesis by blast
qed

section \<open>The sync layer\<close>

text \<open>
  Claim C7, as the code has it. For every call of \<open>sync\<close> (any method, model and
  options): when \<open>getCsrfToken\<close> resolves with a token, the request is sent in the world
  that \<open>getCsrfToken\<close> left, so after any token request, and with credentials. The
  \<open>X-CSRF-Token\<close> header holding the token is set on the request first, and the caller's
  \<open>beforeSend\<close>, if there is one, runs after that on the same request: the headers sent
  are what it makes of a request that carries the token. So the request carries the token
  when there is no caller hook, and when the hook leaves that header as it found it. A
  call that has no URL at all (empty root, no URL in the options, empty model URL) raises
  an error and sends nothing. When \<open>getCsrfToken\<close> is rejected, \<open>sync\<close> is rejected and
  nothing but the token request has been sent: the transport is not reached.
\<close>

theorem sync_token_header:
  "(\<forall>w1 token. getCsrfToken appRoot srv w = (w1, Resolved token) \<longrightarrow>
        (r_url (syncRequest appRoot method model opts token) = [] \<longrightarrow>
           sync appRoot srv method model opts w = (w1, Raised))
      \<and> (r_url (syncRequest appRoot method model opts token) \<noteq> [] \<longrightarrow>
           sync appRoot srv method model opts w =
             ajax srv (syncRequest appRoot method model opts token) w1
         \<and> sent (fst (sync appRoot srv method model opts w)) =
             sent w1 @ [syncRequest appRoot method model opts token])
      \<and> r_withCredentials (syncRequest appRoot method model opts token)
      \<and> r_headers (syncRequest appRoot method model opts token) =
          (case o_beforeSend opts of
             None \<Rightarrow> setRequestHeader ''X-CSRF-Token'' token []
           | Some f \<Rightarrow> f (setRequestHeader ''X-CSRF-Token'' token []))
      \<and> headerValue ''X-CSRF-Token'' (setRequestHeader ''X-CSRF-Token'' token []) =
          Some (ToString token)
      \<and> (o_beforeSend opts = None \<longrightarrow>
            headerValue ''X-CSRF-Token'' (r_headers (syncRequest appRoot method model opts token)) =
              Some (ToString token))
      \<and> (\<forall>f. o_beforeSend opts = Some f
              \<and> headerValue ''X-CSRF-Token'' (f (setRequestHeader ''X-CSRF-Token'' token [])) =
                  headerValue ''X-CSRF-Token'' (setRequestHeader ''X-CSRF-Token'' token [])
            \<longrightarrow> headerValue ''X-CSRF-Token''
                  (r_headers (syncRequest appRoot method model opts token)) =
                  Some (ToString token)))
   \<and> (\<forall>w1. getCsrfToken appRoot srv w = (w1, Rejected) \<longrightarrow>
        sync appRoot srv method model opts w = (w1, Rejected)
      \<and> sent w1 = sent w @ [tokenRequest appRoot])"
proof -
  have h: "r_headers (syncRequest appRoot method model opts token) =
          (case o_beforeSend opts of
             None \<Rightarrow> setRequestHeader ''X-CSRF-Token'' token []
           | Some f \<Rightarrow> f (setRequestHeader ''X-CSRF-Token'' token []))" for token
    by (simp add: syncRequest_def Let_def)
  have c: "r_withCredentials (syncRequest appRoot method model opts token)" for token
    by (simp add: syncRequest_def Let_def)
  have v: "headerValue ''X-CSRF-Token'' (setRequestHeader ''X-CSRF-Token'' token []) =
          Some (ToString token)" for token
    by (rule headerValue_setRequestHeader)
  have n: "o_beforeSend opts = None \<Longrightarrow>
            headerValue ''X-CSRF-Token'' (r_headers (syncRequest appRoot method model opts token)) =
              Some (ToString token)" for token
    by (simp add: h v)
  have k: "o_beforeSend opts = Some f
              \<and> headerValue ''X-CSRF-Token'' (f (setRequestHeader ''X-CSRF-Token'' token [])) =
                  headerValue ''X-CSRF-Token'' (setRequestHeader ''X-CSRF-Token'' token [])
            \<Longrightarrow> headerValue ''X-CSRF-Token''
                  (r_headers (syncRequest appRoot method model opts token)) =
                  Some (ToString token)" for f token
    by (simp add: h v)
  have e: "getCsrfToken appRoot srv w = (w1, Resolved token) \<Longrightarrow>
        r_url (syncRequest appRoot method model opts token) = [] \<Longrightarrow>
           sync appRoot srv method model opts w = (w1, Raised)" for w1 token
    by (rule sync_raised)
  have r: "getCsrfToken appRoot srv w = (w1, Resolved token) \<Longrightarrow>
        r_url (syncRequest appRoot method model opts token) \<noteq> [] \<Longrightarrow>
        sync appRoot srv method model opts w =
          ajax srv (syncRequest appRoot method model opts token) w1
      \<and> sent (fst (sync appRoot srv method model opts w)) =
          sent w1 @ [syncRequest appRoot method model opts token]" for w1 token
    by (simp add: sync_resolved ajax_def)
  have j: "getCsrfToken appRoot srv w = (w1, Rejected) \<Longrightarrow>
        sync appRoot srv method model opts w = (w1, Rejected)
      \<and> sent w1 = sent w @ [tokenRequest appRoot]" for w1
    using getCsrfToken_rejected_sent[of appRoot srv w w1] by (simp add: sync_rejected)
  show ?thesis using h c v n k e r j by blast
qed

text \<open>A fetch of node 5 with a \<open>beforeSend\<close> that sets another header, against a server
  that issues the token \<open>t1\<close>; a create without hook while \<open>t1\<close> is cached; a call without
  any URL; and the fetch again while the server is down.\<close>

theorem sync_token_header_witness:
  "getCsrfToken ''/rest'' srv_accept world0 =
       (\<lparr> getCsrfToken_token = JStr ''t1'', sent = [tokenRequest ''/rest''] \<rparr>, Resolved (JStr ''t1''))
   \<and> sent (fst (sync ''/rest'' srv_accept ''read'' \<lparr> m_url = ''/node/5'', m_json = JObj [] \<rparr>
        \<lparr> o_type = None, o_url = None, o_data = None, o_contentType = None,
          o_withCredentials = False,
          o_beforeSend = Some (setRequestHeader ''X-Extra'' (JStr ''1'')) \<rparr> world0)) =
       [tokenRequest ''/rest'',
        \<lparr> r_url = ''/rest/node/5'', r_query = None, r_type = ''GET'', r_contentType = None,
          r_withCredentials = True,
          r_headers = [(''X-CSRF-Token'', ''t1''), (''X-Extra'', ''1'')], r_data = None \<rparr>]
   \<and> headerValue ''X-CSRF-Token''
        (setRequestHeader ''X-Extra'' (JStr ''1'')
          (setRequestHeader ''X-CSRF-Token'' (JStr ''t1'') [])) = Some ''t1''
   \<and> sent (fst (sync ''/rest'' srv_accept ''create''
        \<lparr> m_url = ''/node'', m_json = JObj [(''title'', JStr ''a'')] \<rparr>
        \<lparr> o_type = None, o_url = None, o_data = None, o_contentType = None,
          o_withCredentials = False, o_beforeSend = None \<rparr>
        \<lparr> getCsrfToken_token = JStr ''t1'', sent = [] \<rparr>)) =
       [\<lparr> r_url = ''/rest/node'', r_query = None, r_type = ''POST'',
          r_contentType = Some ''application/json'', r_withCredentials = True,
          r_headers = [(''X-CSRF-Token'', ''t1'')],
          r_data = Some (JsonText (JObj [(''title'', JStr ''a'')])) \<rparr>]
   \<and> sync [] srv_accept ''read'' \<lparr> m_url = [], m_json = JObj [] \<rparr>
        \<lparr> o_type = None, o_url = None, o_data = None, o_contentType = None,
          o_withCredentials = False, o_beforeSend = None \<rparr>
        \<lparr> getCsrfToken_token = JStr ''t1'', sent = [] \<rparr> =
       (\<lparr> getCsrfToken_token = JStr ''t1'', sent = [] \<rparr>, Raised)
   \<and> getCsrfToken ''/rest'' srv_down world0 =
       (\<lparr> getCsrfToken_token = JUndefined, sent = [tokenRequest ''/rest''] \<rparr>, Rejected)
   \<and> sync ''/rest'' srv_down ''read'' \<lparr> m_url = ''/node/5'', m_json = JObj [] \<rparr>
        \<lparr> o_type = None, o_url = None, o_data = None, o_contentType = None,
          o_withCredentials = False,
          o_beforeSend = Some (setRequestHeader ''X-Extra'' (JStr ''1'')) \<rparr> world0 =
       (\<lparr> getCsrfToken_token = JUndefined, sent = [tokenRequest ''/rest''] \<rparr>, Rejected)"
proof -
  let ?m = "\<lparr> m_url = ''/node/5'', m_json = JObj [] \<rparr>"
  let ?o = "\<lparr> o_type = None, o_url = None, o_data = None, o_contentType = None,
          o_withCredentials = False,
          o_beforeSend = Some (setRequestHeader ''X-Extra'' (JStr ''1'')) \<rparr>"
  let ?m2 = "\<lparr> m_url = ''/node'', m_json = JObj [(''title'', JStr ''a'')] \<rparr>"
  let ?m3 = "\<lparr> m_url = [], m_json = JObj [] \<rparr>"
  let ?o2 = "\<lparr> o_type = None, o_url = None, o_data = None, o_contentType = None,
          o_withCredentials = False, o_beforeSend = None \<rparr>"
  let ?w1 = "\<lparr> getCsrfToken_token = JStr ''t1'', sent = [tokenRequest ''/rest''] \<rparr>"
  let ?w2 = "\<lparr> getCsrfToken_token = JUndefined, sent = [tokenRequest ''/rest''] \<rparr>"
  let ?wc = "\<lparr> getCsrfToken_token = JStr ''t1'', sent = [] \<rparr>"
  have g1: "getCsrfToken ''/rest'' srv_accept world0 = (?w1, Resolved (JStr ''t1''))"
    by (simp add: getCsrfToken_def ajax_def setCsrfToken_def truthy_def world0_def
          srv_accept_def tokenRequest_def)
  have g2: "getCsrfToken ''/rest'' srv_down world0 = (?w2, Rejected)"
    by (simp add: getCsrfToken_def ajax_def truthy_def world0_def srv_down_def)
  have g3: "getCsrfToken ''/rest'' srv_accept ?wc = (?wc, Resolved (JStr ''t1''))"
    by (simp add: getCsrfToken_def truthy_def)
  have g4: "getCsrfToken [] srv_accept ?wc = (?wc, Resolved (JStr ''t1''))"
    by (simp add: getCsrfToken_def truthy_def)
  have q: "syncRequest ''/rest'' ''read'' ?m ?o (JStr ''t1'') =
        \<lparr> r_url = ''/rest/node/5'', r_query = None, r_type = ''GET'', r_contentType = None,
          r_withCredentials = True,
          r_headers = [(''X-CSRF-Token'', ''t1''), (''X-Extra'', ''1'')], r_data = None \<rparr>"
    by (simp add: syncRequest_def methodMap_def toUpperCase_def toLowerCase_def
          dataIsNull_def dataPresent_def setRequestHeader_def)
  have q2: "syncRequest ''/rest'' ''create'' ?m2 ?o2 (JStr ''t1'') =
        \<lparr> r_url = ''/rest/node'', r_query = None, r_type = ''POST'',
          r_contentType = Some ''application/json'', r_withCredentials = True,
          r_headers = [(''X-CSRF-Token'', ''t1'')],
          r_data = Some (JsonText (JObj [(''title'', JStr ''a'')])) \<rparr>"
    by (simp add: syncRequest_def methodMap_def toUpperCase_def toLowerCase_def
          dataIsNull_def dataPresent_def setRequestHeader_def)
  have q3: "r_url (syncRequest [] ''read'' ?m3 ?o2 (JStr ''t1'')) = []"
    by (simp add: syncRequest_def Let_def)
  note t1 = sync_token_header[of "''/rest''" srv_accept world0 "''read''" ?m ?o]
  from t1 g1 have "r_url (syncRequest ''/rest'' ''read'' ?m ?o (JStr ''t1'')) \<noteq> [] \<longrightarrow>
          sent (fst (sync ''/rest'' srv_accept ''read'' ?m ?o world0)) =
          sent ?w1 @ [syncRequest ''/rest'' ''read'' ?m ?o (JStr ''t1'')]"
    by blast
  then have 1: "sent (fst (sync ''/rest'' srv_accept ''read'' ?m ?o world0)) =
       [tokenRequest ''/rest'',
        \<lparr> r_url = ''/rest/node/5'', r_query = None, r_type = ''GET'', r_contentType = None,
          r_withCredentials = True,
          r_headers = [(''X-CSRF-Token'', ''t1''), (''X-Extra'', ''1'')], r_data = None \<rparr>]"
    by (simp add: q)
  have keep: "headerValue ''X-CSRF-Token''
        (setRequestHeader ''X-Extra'' (JStr ''1'') (setRequestHeader ''X-CSRF-Token'' (JStr ''t1'') [])) =
      headerValue ''X-CSRF-Token'' (setRequestHeader ''X-CSRF-Token'' (JStr ''t1'') [])"
    by (simp add: setRequestHeader_def toLowerCase_def)
  from t1 g1 have "o_beforeSend ?o = Some (setRequestHeader ''X-Extra'' (JStr ''1''))
              \<and> headerValue ''X-CSRF-Token''
                  (setRequestHeader ''X-Extra'' (JStr ''1'')
                    (setRequestHeader ''X-CSRF-Token'' (JStr ''t1'') [])) =
                  headerValue ''X-CSRF-Token'' (setRequestHeader ''X-CSRF-Token'' (JStr ''t1'') [])
            \<longrightarrow> headerValue ''X-CSRF-Token''
                  (r_headers (syncRequest ''/rest'' ''read'' ?m ?o (JStr ''t1''))) =
                  Some (ToString (JStr ''t1''))"
    by blast
  with keep have 2: "headerValue ''X-CSRF-Token''
        (setRequestHeader ''X-Extra'' (JStr ''1'')
          (setRequestHeader ''X-CSRF-Token'' (JStr ''t1'') [])) = Some ''t1''"
    by (simp add: q setRequestHeader_def)
  note t3 = sync_token_header[of "''/rest''" srv_accept ?wc "''create''" ?m2 ?o2]
  from t3 g3 have "r_url (syncRequest ''/rest'' ''create'' ?m2 ?o2 (JStr ''t1'')) \<noteq> [] \<longrightarrow>
          sent (fst (sync ''/rest'' srv_accept ''create'' ?m2 ?o2 ?wc)) =
          sent ?wc @ [syncRequest ''/rest'' ''create'' ?m2 ?o2 (JStr ''t1'')]"
    by blast
  then have 3: "sent (fst (sync ''/rest'' srv_accept ''create'' ?m2 ?o2 ?wc)) =
       [\<lparr> r_url = ''/rest/node'', r_query = None, r_type = ''POST'',
          r_contentType = Some ''application/json'', r_withCredentials = True,
          r_headers = [(''X-CSRF-Token'', ''t1'')],
          r_data = Some (JsonText (JObj [(''title'', JStr ''a'')])) \<rparr>]"
    by (simp add: q2)
  note t4 = sync_token_header[of "[]" srv_accept ?wc "''read''" ?m3 ?o2]
  from t4 g4 q3 have 4: "sync [] srv_accept ''read'' ?m3 ?o2 ?wc = (?wc, Raised)"
    by blast
  from sync_token_header[of "''/rest''" srv_down world0 "''read''" ?m ?o] g2
  have 5: "sync ''/rest'' srv_down ''read'' ?m ?o world0 = (?w2, Rejected)"
    by blast
  from g1 1 2 3 4 g2 5 show ?thesis by blast
qed

text \<open>The claim as it was stated has the request carry the resolved token whatever the
  caller's hook. Here the token is \<open>t1\<close> and the caller's \<open>beforeSend\<close> sets the header
  \<open>X-CSRF-Token\<close> itself: the request that is sent carries the caller's value.\<close>

theorem sync_token_header_counterexample:
  "getCsrfToken ''/rest'' srv_accept world0 =
       (\<lparr> getCsrfToken_token = JStr ''t1'', sent = [tokenRequest ''/rest''] \<rparr>, Resolved (JStr ''t1''))
   \<and> sent (fst (sync ''/rest'' srv_accept ''read'' \<lparr> m_url = ''/node/5'', m_json = JObj [] \<rparr>
        \<lparr> o_type = None, o_url = None, o_data = None, o_contentType = None,
          o_withCredentials = False,
          o_beforeSend = Some (setRequestHeader ''X-CSRF-Token'' (JStr ''mine'')) \<rparr> world0)) =
       [tokenRequest ''/rest'',
        \<lparr> r_url = ''/rest/node/5'', r_query = None, r_type = ''GET'', r_contentType = None,
          r_withCredentials = True,
          r_headers = [(''X-CSRF-Token'', ''mine'')], r_data = None \<rparr>]"
  by (simp add: sync_def sync0_def buildRequest_def getCsrfToken_def ajax_def setCsrfToken_def truthy_def
        world0_def srv_accept_def tokenRequest_def methodMap_def toUpperCase_def
        toLowerCase_def dataIsNull_def dataPresent_def setRequestHeader_def)

section \<open>Logout\<close>

text \<open>
  Claim C8. When the logout request succeeds (the promise of \<open>logout\<close> resolves), the
  token store holds \<open>false\<close>, so no token is cached, \<open>loggedIn\<close> is false, and the
  attributes of the user model are the ones it had before.
\<close>

theorem logout_success:
  assumes "logout appRoot srv (s, w) = ((s', w'), Resolved d)"
  shows "getCsrfToken_token w' = JBool False \<and> \<not> truthy (getCsrfToken_token w')
       \<and> loggedIn s' = False \<and> user s' = user s"
  using assms
  by (auto simp: logout_def resetCsrfToken_def truthy_def split: prod.splits promise.splits)

text \<open>User 5 logs out while the token \<open>t2\<close> is cached.\<close>

theorem logout_success_witness:
  "logout ''/rest'' srv_accept
      (\<lparr> loggedIn = True, user = Map.empty(''uid'' \<mapsto> JNum (JInt 5)) \<rparr>,
       \<lparr> getCsrfToken_token = JStr ''t2'', sent = [] \<rparr>) =
     ((\<lparr> loggedIn = False, user = Map.empty(''uid'' \<mapsto> JNum (JInt 5)) \<rparr>,
       \<lparr> getCsrfToken_token = JBool False,
         sent = [\<lparr> r_url = ''/rest/user/logout'', r_query = None, r_type = ''POST'',
                   r_contentType = Some ''application/json'', r_withCredentials = True,
                   r_headers = [(''X-CSRF-Token'', ''t2'')], r_data = None \<rparr>] \<rparr>),
      Resolved \<lparr> data_token = JUndefined, data_user = Map.empty \<rparr>)
   \<and> loggedIn \<lparr> loggedIn = False, user = Map.empty(''uid'' \<mapsto> JNum (JInt 5)) \<rparr> = False
   \<and> user \<lparr> loggedIn = False, user = Map.empty(''uid'' \<mapsto> JNum (JInt 5)) \<rparr> =
       user \<lparr> loggedIn = True, user = Map.empty(''uid'' \<mapsto> JNum (JInt 5)) \<rparr>"
proof -
  have run: "logout ''/rest'' srv_accept
      (\<lparr> loggedIn = True, user = Map.empty(''uid'' \<mapsto> JNum (JInt 5)) \<rparr>,
       \<lparr> getCsrfToken_token = JStr ''t2'', sent = [] \<rparr>) =
     ((\<lparr> loggedIn = False, user = Map.empty(''uid'' \<mapsto> JNum (JInt 5)) \<rparr>,
       \<lparr> getCsrfToken_token = JBool False,
         sent = [\<lparr> r_url = ''/rest/user/logout'', r_query = None, r_type = ''POST'',
                   r_contentType = Some ''application/json'', r_withCredentials = True,
                   r_headers = [(''X-CSRF-Token'', ''t2'')], r_data = None \<rparr>] \<rparr>),
      Resolved \<lparr> data_token = JUndefined, data_user = Map.empty \<rparr>)"
    by (simp add: logout_def doPost_cases net_defs srv_accept_def)
  from logout_success[OF run] run show ?thesis by simp
qed

text \<open>
  Claim C10. When the logout request fails (the promise of \<open>logout\<close> does not resolve),
  the session is unchanged, \<open>loggedIn\<close> included, and the token store was not reset: it
  holds what \<open>getCsrfToken\<close> left there, which is the cached token when there was one.
\<close>

theorem logout_failure:
  assumes "logout appRoot srv (s, w) = ((s', w'), r)" and "\<forall>d. r \<noteq> Resolved d"
  shows "s' = s
       \<and> getCsrfToken_token w' = getCsrfToken_token (fst (getCsrfToken appRoot srv w))
       \<and> (truthy (getCsrfToken_token w) \<longrightarrow> getCsrfToken_token w' = getCsrfToken_token w)"
proof -
  obtain w1 r1 where p: "doPost appRoot srv s ''/user/logout'' None w = (w1, r1)"
    by (cases "doPost appRoot srv s ''/user/logout'' None w")
  from assms p have e: "s' = s" "w' = w1" "r = r1"
    by (auto simp: logout_def split: promise.splits)
  have t: "getCsrfToken_token w1 = getCsrfToken_token (fst (getCsrfToken appRoot srv w))"
    using doPost_token[of appRoot srv s "''/user/logout''" None w] p by simp
  show ?thesis using e t by (simp add: getCsrfToken_cached)
qed

text \<open>User 5 logs out while the token \<open>t2\<close> is cached and the server refuses the request.\<close>

theorem logout_failure_witness:
  "logout ''/rest'' srv_refuse
      (\<lparr> loggedIn = True, user = Map.empty(''uid'' \<mapsto> JNum (JInt 5)) \<rparr>,
       \<lparr> getCsrfToken_token = JStr ''t2'', sent = [] \<rparr>) =
     ((\<lparr> loggedIn = True, user = Map.empty(''uid'' \<mapsto> JNum (JInt 5)) \<rparr>,
       \<lparr> getCsrfToken_token = JStr ''t2'',
         sent = [\<lparr> r_url = ''/rest/user/logout'', r_query = None, r_type = ''POST'',
                   r_contentType = Some ''application/json'', r_withCredentials = True,
                   r_headers = [(''X-CSRF-Token'', ''t2'')], r_data = None \<rparr>] \<rparr>),
      Rejected)
   \<and> (\<forall>d. (Rejected :: reply promise) \<noteq> Resolved d)
   \<and> truthy (getCsrfToken_token \<lparr> getCsrfToken_token = JStr ''t2'', sent = [] \<rparr>)
   \<and> getCsrfToken_token \<lparr> getCsrfToken_token = JStr ''t2'',
         sent = [\<lparr> r_url = ''/rest/user/logout'', r_query = None, r_type = ''POST'',
                   r_contentType = Some ''application/json'', r_withCredentials = True,
                   r_headers = [(''X-CSRF-Token'', ''t2'')], r_data = None \<rparr>] \<rparr> =
       getCsrfToken_token \<lparr> getCsrfToken_token = JStr ''t2'', sent = [] \<rparr>"
proof -
  have run: "logout ''/rest'' srv_refuse
      (\<lparr> loggedIn = True, user = Map.empty(''uid'' \<mapsto> JNum (JInt 5)) \<rparr>,
       \<lparr> getCsrfToken_token = JStr ''t2'', sent = [] \<rparr>) =
     ((\<lparr> loggedIn = True, user = Map.empty(''uid'' \<mapsto> JNum (JInt 5)) \<rparr>,
       \<lparr> getCsrfToken_token = JStr ''t2'',
         sent = [\<lparr> r_url = ''/rest/user/logout'', r_query = None, r_type = ''POST'',
                   r_contentType = Some ''application/json'', r_withCredentials = True,
                   r_headers = [(''X-CSRF-Token'', ''t2'')], r_data = None \<rparr>] \<rparr>),
      Rejected)"
    by (simp add: logout_def doPost_cases net_defs srv_refuse_def)
  have nr: "\<forall>d. (Rejected :: reply promise) \<noteq> Resolved d" by simp
  have t: "truthy (getCsrfToken_token \<lparr> getCsrfToken_token = JStr ''t2'', sent = [] \<rparr>)"
    by (simp add: truthy_def)
  from logout_failure[OF run nr] run nr t show ?thesis by blast
qed

section \<open>Login when a request fails\<close>

text \<open>
  Claim C9. In a \<open>login\<close> of a session that is not logged in: when the connect request
  does not resolve, the promise of \<open>login\<close> stays pending, the session is unchanged and
  nothing is sent after the failed request; when the connect request resolves with the
  anonymous user and the login request does not resolve, the promise of \<open>login\<close> stays
  pending and nothing is sent after the failed request. \<open>login\<close> acts on no failure: its
  promise is never resolved and never rejected in these runs.
\<close>

theorem login_failure_pending:
  assumes "\<not> loggedIn s"
  shows "((\<forall>d. snd (doPost appRoot srv s ''/system/connect'' None w) \<noteq> Resolved d) \<longrightarrow>
            login appRoot srv username password (s, w) =
              ((s, fst (doPost appRoot srv s ''/system/connect'' None w)), Pending))
       \<and> (\<forall>w1 d. doPost appRoot srv s ''/system/connect'' None w = (w1, Resolved d)
            \<and> \<not> looseNeqZero (getp (data_user d) ''uid'')
            \<and> (\<forall>d2. snd (doPost appRoot srv (s\<lparr>loggedIn := True\<rparr>) ''/user/login''
                  (Some (JObj [(''username'', username), (''password'', password)])) w1)
                  \<noteq> Resolved d2)
            \<longrightarrow> snd (login appRoot srv username password (s, w)) = Pending
              \<and> snd (fst (login appRoot srv username password (s, w))) =
                  fst (doPost appRoot srv (s\<lparr>loggedIn := True\<rparr>) ''/user/login''
                  (Some (JObj [(''username'', username), (''password'', password)])) w1))"
  using assms
  by (auto simp: login_def Let_def split: prod.splits promise.splits)

text \<open>A login while the server is down, and a login whose credentials are refused.\<close>

theorem login_failure_pending_witness:
  "\<not> loggedIn Session_new
   \<and> doPost ''/rest'' srv_down Session_new ''/system/connect'' None world0 =
       (\<lparr> getCsrfToken_token = JUndefined, sent = [tokenRequest ''/rest''] \<rparr>, Rejected)
   \<and> login ''/rest'' srv_down (JStr ''ann'') (JStr ''pw'') (Session_new, world0) =
       ((Session_new, \<lparr> getCsrfToken_token = JUndefined, sent = [tokenRequest ''/rest''] \<rparr>),
        Pending)
   \<and> snd (doPost ''/rest'' srv_refuse Session_new ''/system/connect'' None world0) =
       Resolved \<lparr> data_token = JUndefined, data_user = Map.empty(''uid'' \<mapsto> JNum (JInt 0)) \<rparr>
   \<and> snd (doPost ''/rest'' srv_refuse (Session_new\<lparr>loggedIn := True\<rparr>) ''/user/login''
            (Some (JObj [(''username'', JStr ''ann''), (''password'', JStr ''bad'')]))
            (fst (doPost ''/rest'' srv_refuse Session_new ''/system/connect'' None world0))) =
       Rejected
   \<and> snd (login ''/rest'' srv_refuse (JStr ''ann'') (JStr ''bad'') (Session_new, world0)) = Pending"
proof -
  let ?wd = "\<lparr> getCsrfToken_token = JUndefined, sent = [tokenRequest ''/rest''] \<rparr>"
  let ?d = "\<lparr> data_token = JUndefined, data_user = Map.empty(''uid'' \<mapsto> JNum (JInt 0)) \<rparr>"
  let ?c = "doPost ''/rest'' srv_refuse Session_new ''/system/connect'' None world0"
  let ?l = "doPost ''/rest'' srv_refuse (Session_new\<lparr>loggedIn := True\<rparr>) ''/user/login''
            (Some (JObj [(''username'', JStr ''ann''), (''password'', JStr ''bad'')])) (fst ?c)"
  have n: "\<not> loggedIn Session_new" by (simp add: Session_new_def)
  have p1: "doPost ''/rest'' srv_down Session_new ''/system/connect'' None world0 = (?wd, Rejected)"
    by (simp add: doPost_cases net_defs srv_down_def)
  have c: "snd ?c = Resolved ?d"
    by (simp add: doPost_cases net_defs srv_refuse_def)
  have l: "snd ?l = Rejected"
    by (simp add: doPost_cases net_defs srv_refuse_def)
  have z: "\<not> looseNeqZero (getp (data_user ?d) ''uid'')"
    by (simp add: looseNeqZero_def getp_def)
  note t1 = login_failure_pending[OF n, of "''/rest''" srv_down world0 "JStr ''ann''" "JStr ''pw''"]
  from t1 p1
  have 1: "login ''/rest'' srv_down (JStr ''ann'') (JStr ''pw'') (Session_new, world0) =
       ((Session_new, ?wd), Pending)"
    by simp
  note t2 = login_failure_pending[OF n, of "''/rest''" srv_refuse world0 "JStr ''ann''" "JStr ''bad''"]
  have ce: "?c = (fst ?c, Resolved ?d)" using c by (simp add: prod_eq_iff)
  from t2 have "?c = (fst ?c, Resolved ?d)
            \<and> \<not> looseNeqZero (getp (data_user ?d) ''uid'')
            \<and> (\<forall>d2. snd ?l \<noteq> Resolved d2)
            \<longrightarrow> snd (login ''/rest'' srv_refuse (JStr ''ann'') (JStr ''bad'') (Session_new, world0)) = Pending"
    by blast
  with ce z l
  have 2: "snd (login ''/rest'' srv_refuse (JStr ''ann'') (JStr ''bad'') (Session_new, world0)) = Pending"
    by simp
  from n p1 1 c l 2 show ?thesis by blast
qed

end
